theory Spec2Isabelle
  imports Complex_Main "HOL-Library.Sublist"
begin

section \<open>Data model of \<open>frontend/src/App.tsx\<close>\<close>

text \<open>
  Two kinds of text. The messages of the component, and the text it only stores and
  shows (the fields of a coin), are \<open>string\<close>s. The text whose length or letters the
  code inspects (the query, the search text, the symbol and the name of a candidate)
  is a \<open>js_string\<close>: the list of its UTF-16 code units, which is what \<open>length\<close> counts
  and \<open>includes\<close> compares in the source. \<open>utf16\<close> gives the code units of a literal
  of ASCII characters.
\<close>

type_synonym js_string = "nat list"

definition utf16 :: "string \<Rightarrow> js_string" where
  "utf16 lit = map of_char lit"

text \<open>
  The interface \<open>Cryptocurrency\<close>. The field \<open>id\<close> of the source is \<open>coin_id\<close> here
  (\<open>id\<close> is the identity function of HOL), and the fields \<open>name\<close> and \<open>symbol\<close>, which the
  source also gives to \<open>SearchResult\<close>, carry the prefix \<open>coin_\<close>. The numbers of the
  source are doubles; no function below computes with them.
\<close>

record Cryptocurrency =
  coin_id :: int
  coin_name :: string
  coin_symbol :: string
  price :: real
  percent_change_24h :: real
  percent_change_7d :: real
  market_cap :: real
  is_default :: bool
  logo :: string

record SearchResult =
  symbol :: js_string
  name :: js_string

text \<open>
  What the code observes of a response body (\<open>response.data\<close>): whether it is an array
  (\<open>Array.isArray\<close>, and the receiver of \<open>.sort\<close>, \<open>.filter\<close>), and otherwise its
  \<open>error\<close> member (\<open>data?.error\<close>, absent as \<open>None\<close>) and its \<open>JSON.stringify\<close> text.
\<close>

datatype 'a body =
    ArrayBody "'a list"
  | OtherBody (error_member: "string option") (stringified: string)

text \<open>
  An \<open>AxiosError\<close>, by the members the code reads: \<open>response\<close> (absent as \<open>None\<close>),
  whether \<open>request\<close> is set, \<open>code\<close> and \<open>message\<close>.
\<close>

record 'a AxiosError =
  response :: "'a body option"
  request :: bool
  code :: "string option"
  message :: string

text \<open>What a \<open>catch\<close> clause receives; \<open>axios.isAxiosError\<close> tells the two apart.\<close>

datatype 'a thrown = AxiosErr "'a AxiosError" | OtherErr

text \<open>How an awaited axios call settles.\<close>

datatype 'a settled = Resolved "'a body" | Rejected "'a thrown"

text \<open>The axios calls of the component, recorded in the order they are issued.\<close>

datatype api_call = Ping | GetList | GetSearch js_string | GetAdd js_string

text \<open>
  The \<open>useState\<close> cells of \<open>App\<close>, and \<open>issued\<close>: the axios calls made so far
  (the network effect as a value; it is no React state).
\<close>

record AppState =
  cryptocurrencies :: "Cryptocurrency list"
  isSearchDialogOpen :: bool
  searchTerm :: js_string
  searchResults :: "SearchResult list"
  error :: string
  isLoading :: bool
  anchorEl :: "nat option"
  issued :: "api_call list"

definition initial :: AppState where
  "initial = \<lparr>cryptocurrencies = [], isSearchDialogOpen = False, searchTerm = [],
     searchResults = [], error = [], isLoading = True, anchorEl = None, issued = []\<rparr>"

section \<open>\<open>Array.prototype.sort\<close> with a comparator\<close>

text \<open>
  The comparator of lines 80--82:
  \<open>a.is_default === b.is_default ? 0 : a.is_default ? -1 : 1\<close>.
\<close>

definition compare_default :: "Cryptocurrency \<Rightarrow> Cryptocurrency \<Rightarrow> int" where
  "compare_default a b =
     (if is_default a = is_default b then 0 else if is_default a then - 1 else 1)"

text \<open>
  \<open>Array.prototype.sort\<close> is stable (ECMAScript 2019): an element moves behind another
  one only where the comparator is positive. Insertion from the right end does that.
\<close>

fun insert_by :: "('a \<Rightarrow> 'a \<Rightarrow> int) \<Rightarrow> 'a \<Rightarrow> 'a list \<Rightarrow> 'a list" where
  "insert_by cmp x [] = [x]"
| "insert_by cmp x (y # ys) =
     (if cmp x y \<le> 0 then x # y # ys else y # insert_by cmp x ys)"

definition array_sort :: "('a \<Rightarrow> 'a \<Rightarrow> int) \<Rightarrow> 'a list \<Rightarrow> 'a list" where
  "array_sort cmp xs = foldr (insert_by cmp) xs []"

section \<open>\<open>fetchCryptocurrencies\<close>\<close>

text \<open>Lines 61--75: the two state updates before the \<open>await\<close>, and the request.\<close>

definition fetchCryptocurrencies_begin :: "AppState \<Rightarrow> AppState" where
  "fetchCryptocurrencies_begin s =
     s\<lparr>isLoading := True, error := [], issued := issued s @ [GetList]\<rparr>"

text \<open>Lines 86--114: the \<open>catch\<close> clause.\<close>

definition fetch_catch :: "Cryptocurrency thrown \<Rightarrow> AppState \<Rightarrow> AppState" where
  "fetch_catch e s =
     (let s1 = s\<lparr>isLoading := False\<rparr> in
      case e of
        AxiosErr ae \<Rightarrow>
          (case response ae of
             Some (ArrayBody xs) \<Rightarrow>
               s1\<lparr>cryptocurrencies := xs,
                  error := ''Unable to fetch live cryptocurrency data. Showing default coins.''\<rparr>
           | Some (OtherBody _ js) \<Rightarrow> s1\<lparr>error := ''Server Error: '' @ js\<rparr>
           | None \<Rightarrow>
               if request ae
               then s1\<lparr>error := ''No response from server. Check your network connection.''\<rparr>
               else s1\<lparr>error := ''Error setting up the request. Check your network connection.''\<rparr>)
      | OtherErr \<Rightarrow> s1\<lparr>error := ''An unexpected error occurred''\<rparr>)"

text \<open>
  Lines 77--114: what runs when the request settles. A resolved response whose body
  is no array has no \<open>sort\<close>: line 80 throws a \<open>TypeError\<close>, which the \<open>catch\<close> clause
  receives as a non-axios error.
\<close>

definition fetchCryptocurrencies_settle ::
    "Cryptocurrency settled \<Rightarrow> AppState \<Rightarrow> AppState" where
  "fetchCryptocurrencies_settle r s =
     (case r of
        Resolved (ArrayBody xs) \<Rightarrow>
          s\<lparr>cryptocurrencies := array_sort compare_default xs, isLoading := False\<rparr>
      | Resolved (OtherBody _ _) \<Rightarrow> fetch_catch OtherErr s
      | Rejected e \<Rightarrow> fetch_catch e s)"

definition fetchCryptocurrencies :: "Cryptocurrency settled \<Rightarrow> AppState \<Rightarrow> AppState" where
  "fetchCryptocurrencies r s = fetchCryptocurrencies_settle r (fetchCryptocurrencies_begin s)"

section \<open>The connectivity probe and \<open>initializeApp\<close>\<close>

text \<open>
  Lines 118--166. Of the body of a resolved probe the code reads \<open>data.status\<close> only:
  the argument of \<open>PingResolved\<close> is that member, \<open>None\<close> when \<open>data\<close> is falsy or has
  no such member.
\<close>

datatype ping_settled = PingResolved "string option" | PingRejected "unit thrown"

text \<open>\<open>String.prototype.includes\<close>: the argument occurs as a contiguous part.\<close>

fun str_includes :: "'a list \<Rightarrow> 'a list \<Rightarrow> bool" where
  "str_includes [] t = (t = [])"
| "str_includes (c # cs) t = (prefix t (c # cs) \<or> str_includes cs t)"

definition checkServerConnectivity :: "ping_settled \<Rightarrow> AppState \<Rightarrow> bool \<times> AppState" where
  "checkServerConnectivity r s =
     (case r of
        PingResolved st \<Rightarrow>
          if st = Some ''ok'' then (True, s)
          else (False, s\<lparr>error := ''Unexpected server response''\<rparr>)
      | PingRejected (AxiosErr ae) \<Rightarrow>
          (False,
           if code ae = Some ''ECONNABORTED''
           then s\<lparr>error := ''Server connection timed out. Is the backend running?''\<rparr>
           else if str_includes (message ae) ''Network Error''
           then s\<lparr>error := ''Network error. Please check your server connection.''\<rparr>
           else s\<lparr>error := ''Unable to connect to the server: '' @ message ae\<rparr>)
      | PingRejected OtherErr \<Rightarrow>
          (False,
           s\<lparr>error := ''An unexpected error occurred during server connectivity check.''\<rparr>))"

text \<open>Lines 168--173: the list is fetched only behind a successful probe.\<close>

definition initializeApp ::
    "ping_settled \<Rightarrow> Cryptocurrency settled \<Rightarrow> AppState \<Rightarrow> AppState" where
  "initializeApp p r s =
     (case checkServerConnectivity p (s\<lparr>issued := issued s @ [Ping]\<rparr>) of
        (True, s1) \<Rightarrow> fetchCryptocurrencies r s1
      | (False, s1) \<Rightarrow> s1)"

section \<open>\<open>searchCryptocurrencies\<close>\<close>

text \<open>
  Lines 199--202: the predicate given to \<open>filter\<close>. \<open>String.prototype.toLowerCase\<close>
  is the argument \<open>toLowerCase\<close>: the case mapping of Unicode is not defined here, and
  what is proved below holds for every function in its place.
\<close>

definition matches_query ::
    "(js_string \<Rightarrow> js_string) \<Rightarrow> js_string \<Rightarrow> SearchResult \<Rightarrow> bool" where
  "matches_query toLowerCase query result =
     (str_includes (toLowerCase (symbol result)) (toLowerCase query) \<or>
      str_includes (toLowerCase (name result)) (toLowerCase query))"

text \<open>
  \<open>error.response?.data?.error || fallback\<close> (lines 211 and 253): the \<open>error\<close> member
  of the body of the response when there is one and it is not the empty string.
\<close>

definition reported_error :: "'a AxiosError \<Rightarrow> string \<Rightarrow> string" where
  "reported_error ae fallback =
     (case response ae of
        Some (OtherBody (Some msg) _) \<Rightarrow> if msg = [] then fallback else msg
      | _ \<Rightarrow> fallback)"

text \<open>Lines 206--216: the \<open>catch\<close> clause of the search.\<close>

definition search_catch :: "SearchResult thrown \<Rightarrow> AppState \<Rightarrow> AppState" where
  "search_catch e s =
     (case e of
        AxiosErr ae \<Rightarrow>
          s\<lparr>error := ''Search failed: '' @ reported_error ae ''Unknown error'',
            searchResults := []\<rparr>
      | OtherErr \<Rightarrow>
          s\<lparr>error := ''Failed to perform search. Please try again.'', searchResults := []\<rparr>)"

text \<open>
  Lines 197--216: what runs when the search request settles. \<open>slice(0, 10)\<close> keeps the
  first ten elements. A resolved body that is no array has no \<open>filter\<close>: a \<open>TypeError\<close>
  reaches the \<open>catch\<close> clause.
\<close>

definition searchCryptocurrencies_settle ::
    "(js_string \<Rightarrow> js_string) \<Rightarrow> js_string \<Rightarrow> SearchResult settled \<Rightarrow> AppState \<Rightarrow>
       AppState" where
  "searchCryptocurrencies_settle toLowerCase query r s =
     (case r of
        Resolved (ArrayBody rs) \<Rightarrow>
          s\<lparr>searchResults := take 10 (filter (matches_query toLowerCase query) rs)\<rparr>
      | Resolved (OtherBody _ _) \<Rightarrow> search_catch OtherErr s
      | Rejected e \<Rightarrow> search_catch e s)"

text \<open>Lines 180--217. A query of fewer than two code units issues no request.\<close>

definition searchCryptocurrencies ::
    "(js_string \<Rightarrow> js_string) \<Rightarrow> js_string \<Rightarrow> SearchResult settled \<Rightarrow> AppState \<Rightarrow>
       AppState" where
  "searchCryptocurrencies toLowerCase query r s =
     (if length query < 2 then s\<lparr>searchResults := []\<rparr>
      else searchCryptocurrencies_settle toLowerCase query r
             (s\<lparr>issued := issued s @ [GetSearch query]\<rparr>))"

section \<open>\<open>handleAddCrypto\<close> and \<open>handleSelectSearchResult\<close>\<close>

text \<open>Line 236: the part of \<open>handleAddCrypto\<close> that runs before its first \<open>await\<close>.\<close>

definition handleAddCrypto_begin :: "js_string \<Rightarrow> AppState \<Rightarrow> AppState" where
  "handleAddCrypto_begin sy s = s\<lparr>issued := issued s @ [GetAdd sy]\<rparr>"

text \<open>Lines 251--260: the \<open>catch\<close> clause of \<open>handleAddCrypto\<close>.\<close>

definition add_catch :: "unit thrown \<Rightarrow> AppState \<Rightarrow> AppState" where
  "add_catch e s =
     (case e of
        AxiosErr ae \<Rightarrow> s\<lparr>error := reported_error ae ''Failed to add cryptocurrency''\<rparr>
      | OtherErr \<Rightarrow> s\<lparr>error := ''An unexpected error occurred''\<rparr>)"

text \<open>
  Lines 237--260: the rest, run when the add request has settled. The body of a
  resolved response is only logged. \<open>fetchCryptocurrencies\<close> catches every error of
  its own, so the four updates of lines 243--250 follow it whatever its outcome \<open>r\<close>.
\<close>

definition handleAddCrypto_settle ::
    "unit settled \<Rightarrow> Cryptocurrency settled \<Rightarrow> AppState \<Rightarrow> AppState" where
  "handleAddCrypto_settle a r s =
     (case a of
        Resolved _ \<Rightarrow>
          (fetchCryptocurrencies r s)
            \<lparr>isSearchDialogOpen := False, searchResults := [], searchTerm := [], error := []\<rparr>
      | Rejected e \<Rightarrow> add_catch e s)"

text \<open>Lines 233--261, from the call to the end.\<close>

definition handleAddCrypto ::
    "js_string \<Rightarrow> unit settled \<Rightarrow> Cryptocurrency settled \<Rightarrow> AppState \<Rightarrow> AppState" where
  "handleAddCrypto sy a r s = handleAddCrypto_settle a r (handleAddCrypto_begin sy s)"

text \<open>
  Lines 263--268, the click in the popup list: \<open>handleAddCrypto\<close> is called and not
  awaited, so lines 265--267 run when it has issued its request, and its
  continuation runs after them.
\<close>

definition handleSelectSearchResult ::
    "SearchResult \<Rightarrow> unit settled \<Rightarrow> Cryptocurrency settled \<Rightarrow> AppState \<Rightarrow> AppState" where
  "handleSelectSearchResult result a r s =
     handleAddCrypto_settle a r
       ((handleAddCrypto_begin (symbol result) s)
          \<lparr>searchTerm := [], searchResults := [], anchorEl := None\<rparr>)"

text \<open>
  Lines 430--437: the popup is mounted while there are candidates and an anchor, and
  a click outside it runs \<open>onClickAway\<close>.
\<close>

definition popup_mounted :: "AppState \<Rightarrow> bool" where
  "popup_mounted s = (searchResults s \<noteq> [] \<and> anchorEl s \<noteq> None)"

definition onClickAway :: "AppState \<Rightarrow> AppState" where
  "onClickAway s = s\<lparr>anchorEl := None\<rparr>"

text \<open>
  Line 410, the click on an item of the list of the dialog: it calls
  \<open>handleAddCrypto\<close>, and as a click outside the popup it also runs \<open>onClickAway\<close>
  when the popup is mounted.
\<close>

definition dialog_item_click ::
    "js_string \<Rightarrow> unit settled \<Rightarrow> Cryptocurrency settled \<Rightarrow> AppState \<Rightarrow> AppState" where
  "dialog_item_click sy a r s =
     handleAddCrypto_settle a r
       (let s1 = handleAddCrypto_begin sy s
        in if popup_mounted s1 then onClickAway s1 else s1)"

section \<open>\<open>debouncedSearch\<close>\<close>

text \<open>
  Modelled from the spec: \<open>debounce\<close> of lodash (imported at line 28; its code is not
  in the repository), as the cancel-and-reschedule timer of sections 4.3 and 9 of
  the specification: each call cancels the pending invocation, if it has not yet
  run, and schedules one with its own argument a full delay later. Times are
  milliseconds. The calls are given with their times, in the order they are made;
  the result lists the invocations of the debounced function with their times.
  \<open>pending\<close> is the scheduled invocation: its time and its argument.
\<close>

fun debounce :: "nat \<Rightarrow> (nat \<times> 'a) option \<Rightarrow> (nat \<times> 'a) list \<Rightarrow> (nat \<times> 'a) list" where
  "debounce wait pending [] = (case pending of None \<Rightarrow> [] | Some p \<Rightarrow> [p])"
| "debounce wait pending ((t, x) # calls) =
     (case pending of
        None \<Rightarrow> debounce wait (Some (t + wait, x)) calls
      | Some (due, y) \<Rightarrow>
          if due \<le> t then (due, y) # debounce wait (Some (t + wait, x)) calls
          else debounce wait (Some (t + wait, x)) calls)"

text \<open>
  Lines 219--231: every keystroke hands its text to the debounced function, whose
  delay is 300 and which calls \<open>searchCryptocurrencies\<close>. \<open>debouncedSearch\<close> gives the
  calls of \<open>searchCryptocurrencies\<close> that a sequence of keystrokes leads to, with
  their times.
\<close>

definition debouncedSearch :: "(nat \<times> js_string) list \<Rightarrow> (nat \<times> js_string) list" where
  "debouncedSearch keystrokes = debounce 300 None keystrokes"

text \<open>
  The calls of \<open>searchCryptocurrencies\<close> run in their order; \<open>r t\<close> is how the request
  of the call made at time \<open>t\<close> settles.
\<close>

fun run_searches ::
    "(js_string \<Rightarrow> js_string) \<Rightarrow> (nat \<Rightarrow> SearchResult settled) \<Rightarrow> (nat \<times> js_string) list \<Rightarrow>
       AppState \<Rightarrow> AppState" where
  "run_searches toLowerCase r [] s = s"
| "run_searches toLowerCase r ((t, query) # invs) s =
     run_searches toLowerCase r invs (searchCryptocurrencies toLowerCase query (r t) s)"

section \<open>Properties of lists of coins\<close>

text \<open>No default-flagged coin stands behind a coin that is not default-flagged.\<close>

definition defaults_first :: "Cryptocurrency list \<Rightarrow> bool" where
  "defaults_first xs = list_all (\<lambda>c. \<not> is_default c) (dropWhile is_default xs)"

text \<open>
  A message of the "timed out" kind, as the probe's line 154 words it, read without
  regard to the case of the letters \<open>A\<close> to \<open>Z\<close>.
\<close>

definition ascii_lower_char :: "char \<Rightarrow> char" where
  "ascii_lower_char c =
     (let n = (of_char c :: nat) in if 65 \<le> n \<and> n \<le> 90 then char_of (n + 32) else c)"

definition timed_out_message :: "string \<Rightarrow> bool" where
  "timed_out_message msg = str_includes (map ascii_lower_char msg) ''timed out''"

text \<open>
  A burst of keystrokes for the delay \<open>wait\<close>: each keystroke comes no earlier than the
  one before it and less than \<open>wait\<close> milliseconds after it.
\<close>

fun burst :: "nat \<Rightarrow> (nat \<times> 'a) list \<Rightarrow> bool" where
  "burst wait [] = True"
| "burst wait [k] = True"
| "burst wait ((t1, x) # (t2, y) # ks) =
     (t1 \<le> t2 \<and> t2 < t1 + wait \<and> burst wait ((t2, y) # ks))"

text \<open>
  The outcomes of a list request that bring an array with them: a resolved response
  with an array body, and an error response with one (the fallback data of line 97).
\<close>

definition carries_array :: "'a settled \<Rightarrow> bool" where
  "carries_array r =
     (case r of
        Resolved (ArrayBody _) \<Rightarrow> True
      | Resolved (OtherBody _ _) \<Rightarrow> False
      | Rejected (AxiosErr ae) \<Rightarrow>
          (case response ae of Some (ArrayBody _) \<Rightarrow> True | _ \<Rightarrow> False)
      | Rejected OtherErr \<Rightarrow> False)"

section \<open>Concrete inputs\<close>

definition example_coin :: "int \<Rightarrow> string \<Rightarrow> bool \<Rightarrow> Cryptocurrency" where
  "example_coin i sy d =
     \<lparr>coin_id = i, coin_name = sy, coin_symbol = sy, price = 0, percent_change_24h = 0,
      percent_change_7d = 0, market_cap = 0, is_default = d, logo = []\<rparr>"

text \<open>
  The error axios rejects with when the \<open>timeout\<close> of a request runs out in the
  browser: no response, the request object, and the code \<open>ECONNABORTED\<close>.
\<close>

definition timeout_error :: "'a AxiosError" where
  "timeout_error =
     \<lparr>response = None, request = True, code = Some ''ECONNABORTED'',
      message = ''timeout of 10000ms exceeded''\<rparr>"

text \<open>An error response (status 503) with the body \<open>b\<close>.\<close>

definition error_response :: "'a body \<Rightarrow> 'a AxiosError" where
  "error_response b =
     \<lparr>response = Some b, request = True, code = Some ''ERR_BAD_RESPONSE'',
      message = ''Request failed with status code 503''\<rparr>"

text \<open>The dialog is open, \<open>do\<close> is typed, and one candidate is shown.\<close>

definition searching :: AppState where
  "searching =
     initial\<lparr>isLoading := False, isSearchDialogOpen := True, searchTerm := utf16 ''do'',
       searchResults := [\<lparr>symbol = utf16 ''DOGE'', name = utf16 ''Dogecoin''\<rparr>],
       anchorEl := Some 0\<rparr>"

text \<open>
  \<open>String.prototype.toLowerCase\<close> on strings of ASCII characters: the code units of
  the letters \<open>A\<close> to \<open>Z\<close> move to those of \<open>a\<close> to \<open>z\<close>.
\<close>

definition ascii_toLowerCase :: "js_string \<Rightarrow> js_string" where
  "ascii_toLowerCase str = map (\<lambda>u. if 65 \<le> u \<and> u \<le> 90 then u + 32 else u) str"

text \<open>Three keystrokes, 120 and 130 milliseconds apart, that type \<open>btc\<close>.\<close>

definition typing_btc :: "(nat \<times> js_string) list" where
  "typing_btc = [(1000, utf16 ''b''), (1120, utf16 ''bt''), (1250, utf16 ''btc'')]"

section \<open>The default-first sort\<close>

lemma insert_by_default:
  "insert_by compare_default x (filter is_default xs @ filter (\<lambda>c. \<not> is_default c) xs) =
     filter is_default (x # xs) @ filter (\<lambda>c. \<not> is_default c) (x # xs)"
proof (cases "is_default x")
  case True
  then have "\<And>zs. insert_by compare_default x zs = x # zs"
    subgoal for zs by (cases zs) (simp_all add: compare_default_def)
    done
  with True show ?thesis by simp
next
  case False
  have skip: "insert_by compare_default x (filter is_default ys @ zs) =
      filter is_default ys @ insert_by compare_default x zs" for ys zs
    using False by (induction ys) (simp_all add: compare_default_def)
  have front: "insert_by compare_default x (filter (\<lambda>c. \<not> is_default c) zs) =
      x # filter (\<lambda>c. \<not> is_default c) zs" for zs
    using False by (induction zs) (simp_all add: compare_default_def)
  from False show ?thesis by (simp add: skip front)
qed

lemma array_sort_default:
  "array_sort compare_default xs =
     filter is_default xs @ filter (\<lambda>c. \<not> is_default c) xs"
proof (induction xs)
  case Nil
  show ?case by (simp add: array_sort_def)
next
  case (Cons x xs)
  have "array_sort compare_default (x # xs) =
      insert_by compare_default x (array_sort compare_default xs)"
    by (simp add: array_sort_def)
  with Cons show ?case by (simp only: insert_by_default)
qed

lemma defaults_first_partition:
  "defaults_first (filter is_default xs @ filter (\<lambda>c. \<not> is_default c) xs)"
proof -
  have "dropWhile is_default (filter is_default xs @ zs) = dropWhile is_default zs" for zs
    by (induction xs) simp_all
  moreover have "dropWhile is_default (filter (\<lambda>c. \<not> is_default c) xs) =
      filter (\<lambda>c. \<not> is_default c) xs"
    by (induction xs) simp_all
  ultimately show ?thesis
    by (simp add: defaults_first_def list_all_iff)
qed

lemma defaults_first_append:
  "defaults_first xs \<longleftrightarrow>
     (\<exists>ds ns. xs = ds @ ns \<and> list_all is_default ds \<and> list_all (\<lambda>c. \<not> is_default c) ns)"
proof
  assume "defaults_first xs"
  then have "xs = takeWhile is_default xs @ dropWhile is_default xs \<and>
      list_all is_default (takeWhile is_default xs) \<and>
      list_all (\<lambda>c. \<not> is_default c) (dropWhile is_default xs)"
    by (auto simp: defaults_first_def list_all_iff dest: set_takeWhileD)
  then show "\<exists>ds ns. xs = ds @ ns \<and> list_all is_default ds \<and>
      list_all (\<lambda>c. \<not> is_default c) ns"
    by blast
next
  assume "\<exists>ds ns. xs = ds @ ns \<and> list_all is_default ds \<and>
      list_all (\<lambda>c. \<not> is_default c) ns"
  then obtain ds ns where xs: "xs = ds @ ns" and ds: "list_all is_default ds"
    and ns: "list_all (\<lambda>c. \<not> is_default c) ns"
    by blast
  from ds have "dropWhile is_default (ds @ ns) = dropWhile is_default ns"
    by (induction ds) simp_all
  moreover from ns have "dropWhile is_default ns = ns"
    by (cases ns) simp_all
  ultimately show "defaults_first xs"
    using xs ns by (simp add: defaults_first_def)
qed

section \<open>What a list request leaves alone\<close>

lemma fetch_catch_isLoading: "\<not> isLoading (fetch_catch e t)"
  by (simp add: fetch_catch_def Let_def split: thrown.split option.split body.split)

lemma fetch_catch_issued: "issued (fetch_catch e t) = issued t"
  by (simp add: fetch_catch_def Let_def split: thrown.split option.split body.split)

lemma fetchCryptocurrencies_settle_issued:
  "issued (fetchCryptocurrencies_settle r t) = issued t"
  by (simp add: fetchCryptocurrencies_settle_def fetch_catch_issued
      split: settled.split body.split)

lemma fetchCryptocurrencies_issued:
  "issued (fetchCryptocurrencies r t) = issued t @ [GetList]"
  by (simp add: fetchCryptocurrencies_def fetchCryptocurrencies_settle_issued)
    (simp add: fetchCryptocurrencies_begin_def)

section \<open>\<open>includes\<close> is the contiguous-sublist relation\<close>


section \<open>The requests of a search, and the debounce on a burst\<close>

lemma search_catch_issued: "issued (search_catch e t) = issued t"
  by (simp add: search_catch_def split: thrown.split)

lemma searchCryptocurrencies_issued:
  "issued (searchCryptocurrencies toLowerCase query r s) =
     issued s @ (if length query < 2 then [] else [GetSearch query])"
  by (simp add: searchCryptocurrencies_def searchCryptocurrencies_settle_def
      search_catch_issued split: settled.split body.split)

text \<open>
  Within a burst every call comes before the pending invocation is due, so each
  call replaces it; what is left at the end is the invocation of the last call.
\<close>

lemma debounce_burst_pending:
  "burst wait ((t, x) # calls) \<Longrightarrow>
     debounce wait (Some (t + wait, x)) calls =
       [(fst (last ((t, x) # calls)) + wait, snd (last ((t, x) # calls)))]"
proof (induction calls arbitrary: t x)
  case Nil
  show ?case by simp
next
  case (Cons c calls)
  obtain t2 y where c: "c = (t2, y)" by (cases c)
  with Cons.prems have lt: "t2 < t + wait" and b: "burst wait ((t2, y) # calls)"
    by simp_all
  from lt have "debounce wait (Some (t + wait, x)) ((t2, y) # calls) =
      debounce wait (Some (t2 + wait, y)) calls"
    by simp
  with Cons.IH [OF b] c show ?case by simp
qed

lemma debounce_burst:
  "calls \<noteq> [] \<Longrightarrow> burst wait calls \<Longrightarrow>
     debounce wait None calls = [(fst (last calls) + wait, snd (last calls))]"
proof (cases calls)
  case Nil
  assume "calls \<noteq> []"
  with Nil show ?thesis by simp
next
  case (Cons c rest)
  assume b: "burst wait calls"
  obtain t x where c: "c = (t, x)" by (cases c)
  with Cons b have "burst wait ((t, x) # rest)" by simp
  from debounce_burst_pending [OF this] Cons c show ?thesis by simp
qed

section \<open>The claims\<close>

subsection \<open>C1: the default-first order of the table\<close>

text \<open>
  C1 says that every operation replacing the list keeps the default-flagged coins
  before the others, the fallback data of a failed list request included. The
  \<open>catch\<close> clause stores the array of an error response as it came (line 98), without
  the sort of line 80: with a body that lists a coin that is not default-flagged
  before a default-flagged one, the stored list has that order.
\<close>

theorem fallback_data_unsorted:
  "cryptocurrencies (fetchCryptocurrencies
      (Rejected (AxiosErr (error_response
         (ArrayBody [example_coin 1 ''DOGE'' False, example_coin 2 ''BTC'' True])))) initial) =
     [example_coin 1 ''DOGE'' False, example_coin 2 ''BTC'' True]
   \<and> \<not> defaults_first (cryptocurrencies (fetchCryptocurrencies
      (Rejected (AxiosErr (error_response
         (ArrayBody [example_coin 1 ''DOGE'' False, example_coin 2 ''BTC'' True])))) initial))"
  by (simp add: fetchCryptocurrencies_def fetchCryptocurrencies_settle_def
      fetchCryptocurrencies_begin_def fetch_catch_def error_response_def defaults_first_def
      example_coin_def)

subsection \<open>C2: the sort of a successful list request\<close>

text \<open>
  C2. A list request that resolves with the array \<open>xs\<close> replaces the list of the table
  by the default-flagged coins of \<open>xs\<close> followed by the other coins of \<open>xs\<close>, each group
  in the order it has in \<open>xs\<close>; the loading flag and the error are cleared, nothing
  else changes.
\<close>

theorem fetchList_success_stable_sort:
  "fetchCryptocurrencies (Resolved (ArrayBody xs)) s =
     s\<lparr>cryptocurrencies := filter is_default xs @ filter (\<lambda>c. \<not> is_default c) xs,
       isLoading := False, error := [], issued := issued s @ [GetList]\<rparr>
   \<and> defaults_first (cryptocurrencies (fetchCryptocurrencies (Resolved (ArrayBody xs)) s))"
  by (simp add: fetchCryptocurrencies_def fetchCryptocurrencies_settle_def
      fetchCryptocurrencies_begin_def array_sort_default defaults_first_partition)

theorem fetchList_success_stable_sort_witness:
  "cryptocurrencies (fetchCryptocurrencies
     (Resolved (ArrayBody [example_coin 1 ''DOGE'' False, example_coin 2 ''BTC'' True,
        example_coin 3 ''PEPE'' False, example_coin 4 ''ETH'' True])) initial) =
   [example_coin 2 ''BTC'' True, example_coin 4 ''ETH'' True,
    example_coin 1 ''DOGE'' False, example_coin 3 ''PEPE'' False]"
  using fetchList_success_stable_sort
    [of "[example_coin 1 ''DOGE'' False, example_coin 2 ''BTC'' True,
        example_coin 3 ''PEPE'' False, example_coin 4 ''ETH'' True]" initial]
  by (simp add: example_coin_def)

subsection \<open>C3: a failing add\<close>

text \<open>
  C3 as stated, that a failing add leaves the search text alone on both selection
  paths, fails on the popup path: with the dialog open and \<open>do\<close> typed, a click in
  the popup list clears the search text (line 265) although the add is rejected.
\<close>

theorem popup_add_failure_clears_search:
  "isSearchDialogOpen searching \<and> searchTerm searching = utf16 ''do'' \<and>
   searchTerm (handleSelectSearchResult \<lparr>symbol = utf16 ''DOGE'', name = utf16 ''Dogecoin''\<rparr>
     (Rejected (AxiosErr (error_response (OtherBody (Some ''Coin not found'') ''{}''))))
     (Resolved (ArrayBody [])) searching) = []"
  by (simp add: searching_def initial_def handleSelectSearchResult_def
      handleAddCrypto_settle_def handleAddCrypto_begin_def add_catch_def)

text \<open>
  C3, amended. After a failing add the dialog-open flag has the value it had before
  the click, on both selection paths: it is true if the dialog was open. After a
  click in the list of the dialog the search text and the candidate list are what
  they were; after a click in the popup list both have been cleared by
  \<open>handleSelectSearchResult\<close> itself, whatever the outcome of the add.
\<close>

theorem add_failure_search_state:
  "isSearchDialogOpen (dialog_item_click sy (Rejected e) r s) = isSearchDialogOpen s \<and>
   searchTerm (dialog_item_click sy (Rejected e) r s) = searchTerm s \<and>
   searchResults (dialog_item_click sy (Rejected e) r s) = searchResults s \<and>
   isSearchDialogOpen (handleSelectSearchResult result (Rejected e) r s) =
     isSearchDialogOpen s \<and>
   searchTerm (handleSelectSearchResult result (Rejected e) r s) = [] \<and>
   searchResults (handleSelectSearchResult result (Rejected e) r s) = []"
  by (cases e) (simp_all add: dialog_item_click_def handleSelectSearchResult_def
      handleAddCrypto_settle_def handleAddCrypto_begin_def add_catch_def onClickAway_def
      Let_def)

theorem add_failure_search_state_witness:
  "isSearchDialogOpen (dialog_item_click (utf16 ''DOGE'')
     (Rejected (AxiosErr (error_response (OtherBody (Some ''Coin not found'') ''{}''))))
     (Resolved (ArrayBody [])) searching) \<and>
   searchTerm (dialog_item_click (utf16 ''DOGE'')
     (Rejected (AxiosErr (error_response (OtherBody (Some ''Coin not found'') ''{}''))))
     (Resolved (ArrayBody [])) searching) = utf16 ''do'' \<and>
   searchResults (dialog_item_click (utf16 ''DOGE'')
     (Rejected (AxiosErr (error_response (OtherBody (Some ''Coin not found'') ''{}''))))
     (Resolved (ArrayBody [])) searching) =
     [\<lparr>symbol = utf16 ''DOGE'', name = utf16 ''Dogecoin''\<rparr>]"
  using add_failure_search_state [of "utf16 ''DOGE''"
     "AxiosErr (error_response (OtherBody (Some ''Coin not found'') ''{}''))"
     "Resolved (ArrayBody [])" searching]
  by (simp add: searching_def initial_def)

subsection \<open>C4: a list request that times out\<close>

text \<open>
  C4 as stated, that a list request running out of its 10 seconds sets a message of
  the "timed out" kind, fails: the \<open>catch\<close> clause of \<open>fetchCryptocurrencies\<close> does not
  read the code of the error, and the timeout gets the message of a missing response.
\<close>

theorem list_timeout_message:
  "error (fetchCryptocurrencies (Rejected (AxiosErr timeout_error)) initial) =
     ''No response from server. Check your network connection.'' \<and>
   \<not> timed_out_message (error (fetchCryptocurrencies (Rejected (AxiosErr timeout_error)) initial))"
proof -
  have e: "error (fetchCryptocurrencies (Rejected (AxiosErr timeout_error)) initial) =
     ''No response from server. Check your network connection.''"
    by (simp add: fetchCryptocurrencies_def fetchCryptocurrencies_settle_def
      fetchCryptocurrencies_begin_def fetch_catch_def timeout_error_def)
  have "\<not> timed_out_message ''No response from server. Check your network connection.''"
    by code_simp
  with e show ?thesis by simp
qed

text \<open>
  C4, amended. A list request rejected with no response and a request object, a
  timeout among them, sets the message \<open>No response from server. Check your network
  connection.\<close> whatever the code and the message of the error; only the
  connectivity probe tells a timeout (code \<open>ECONNABORTED\<close>) apart, with \<open>Server
  connection timed out. Is the backend running?\<close>.
\<close>

theorem list_no_response_message:
  "error (fetchCryptocurrencies
      (Rejected (AxiosErr \<lparr>response = None, request = True, code = c, message = m\<rparr>)) s) =
     ''No response from server. Check your network connection.'' \<and>
   error (snd (checkServerConnectivity
      (PingRejected (AxiosErr \<lparr>response = rsp, request = rq, code = Some ''ECONNABORTED'',
         message = m\<rparr>)) s)) =
     ''Server connection timed out. Is the backend running?''"
  by (simp add: fetchCryptocurrencies_def fetchCryptocurrencies_settle_def
      fetchCryptocurrencies_begin_def fetch_catch_def checkServerConnectivity_def)

theorem list_no_response_message_witness:
  "error (fetchCryptocurrencies (Rejected (AxiosErr timeout_error)) searching) =
     error (fetchCryptocurrencies (Rejected (AxiosErr
       \<lparr>response = None, request = True, code = Some ''ERR_NETWORK'',
        message = ''Network Error''\<rparr>)) searching)"
  using list_no_response_message [of "Some ''ECONNABORTED''" "''timeout of 10000ms exceeded''" searching]
    list_no_response_message [of "Some ''ERR_NETWORK''" "''Network Error''" searching]
  by (simp add: timeout_error_def)

subsection \<open>C5: the loading flag\<close>

text \<open>
  C5 as stated, that no list request after the first sets the loading flag, fails:
  after a start whose probe and first list request succeeded the flag is false, and
  the next call of \<open>fetchCryptocurrencies\<close> (a tick of the interval of line 176, or
  the call of line 240) sets it again at line 61.
\<close>

theorem later_fetch_sets_loading:
  "\<not> isLoading (initializeApp (PingResolved (Some ''ok'')) (Resolved (ArrayBody [])) initial) \<and>
   issued (initializeApp (PingResolved (Some ''ok'')) (Resolved (ArrayBody [])) initial) =
     [Ping, GetList] \<and>
   isLoading (fetchCryptocurrencies_begin
     (initializeApp (PingResolved (Some ''ok'')) (Resolved (ArrayBody [])) initial))"
  by (simp add: initializeApp_def checkServerConnectivity_def initial_def
      fetchCryptocurrencies_def fetchCryptocurrencies_settle_def
      fetchCryptocurrencies_begin_def array_sort_def)

text \<open>
  C5, amended. Every call of \<open>fetchCryptocurrencies\<close>, the first or a later one, sets
  the loading flag when it starts and clears it when its request settles, whatever
  the outcome.
\<close>

theorem loading_flag_every_fetch:
  "isLoading (fetchCryptocurrencies_begin s) \<and>
   \<not> isLoading (fetchCryptocurrencies_settle r s) \<and>
   \<not> isLoading (fetchCryptocurrencies r s)"
proof -
  have "\<not> isLoading (fetchCryptocurrencies_settle r t)" for t
    by (simp add: fetchCryptocurrencies_settle_def fetch_catch_isLoading
        split: settled.split body.split)
  then show ?thesis
    by (simp add: fetchCryptocurrencies_def) (simp add: fetchCryptocurrencies_begin_def)
qed

theorem loading_flag_every_fetch_witness:
  "isLoading (fetchCryptocurrencies_begin searching) \<and>
   \<not> isLoading (fetchCryptocurrencies (Rejected (AxiosErr timeout_error)) searching)"
  using loading_flag_every_fetch [of searching "Rejected (AxiosErr timeout_error)"]
  by simp

subsection \<open>C6: the error message after a success\<close>

text \<open>
  C6 as stated, that every successful operation clears the error message, fails for
  the search: a search that resolves replaces the candidates only, and a message
  set before it is still there.
\<close>

theorem search_success_keeps_error:
  "error (searchCryptocurrencies ascii_toLowerCase (utf16 ''do'')
     (Resolved (ArrayBody [\<lparr>symbol = utf16 ''DOGE'', name = utf16 ''Dogecoin''\<rparr>]))
     (searching\<lparr>error := ''Failed to add cryptocurrency''\<rparr>)) =
   ''Failed to add cryptocurrency''"
  by (simp add: searchCryptocurrencies_def searchCryptocurrencies_settle_def)

text \<open>
  C6, amended. A list request clears the error message when it starts, and a
  successful one leaves it empty; a successful add clears it after its list
  request has settled, from either selection path; a successful search leaves the
  error message as it was.
\<close>

theorem error_after_success:
  "error (fetchCryptocurrencies (Resolved (ArrayBody xs)) s) = [] \<and>
   error (handleAddCrypto sy (Resolved b) r s) = [] \<and>
   error (handleSelectSearchResult result (Resolved b) r s) = [] \<and>
   error (searchCryptocurrencies toLowerCase query (Resolved (ArrayBody rs)) s) = error s"
  by (simp add: fetchCryptocurrencies_def fetchCryptocurrencies_settle_def
      fetchCryptocurrencies_begin_def handleAddCrypto_def handleSelectSearchResult_def
      handleAddCrypto_settle_def searchCryptocurrencies_def searchCryptocurrencies_settle_def)

theorem error_after_success_witness:
  "error (fetchCryptocurrencies (Resolved (ArrayBody [example_coin 2 ''BTC'' True]))
     (searching\<lparr>error := ''Failed to add cryptocurrency''\<rparr>)) = [] \<and>
   error (handleAddCrypto (utf16 ''DOGE'') (Resolved (OtherBody None ''{}''))
     (Rejected (AxiosErr timeout_error))
     (searching\<lparr>error := ''Failed to add cryptocurrency''\<rparr>)) = []"
  using error_after_success [of "[example_coin 2 ''BTC'' True]"
    "searching\<lparr>error := ''Failed to add cryptocurrency''\<rparr>" "utf16 ''DOGE''"
    "OtherBody None ''{}''"
    "Rejected (AxiosErr timeout_error)"]
  by simp

subsection \<open>C7: the candidates of a successful search\<close>



subsection \<open>C8: a successful add\<close>

text \<open>
  C8. A successful add, from the list of the dialog or from the popup list, issues
  its own request and then exactly one list request; when that has settled,
  whatever its outcome, the dialog-open flag is false, the search text and the
  candidate list are empty and the error message is empty.
\<close>

theorem add_success_refetch_and_reset:
  "issued (handleAddCrypto sy (Resolved b) r s) = issued s @ [GetAdd sy, GetList] \<and>
   \<not> isSearchDialogOpen (handleAddCrypto sy (Resolved b) r s) \<and>
   searchTerm (handleAddCrypto sy (Resolved b) r s) = [] \<and>
   searchResults (handleAddCrypto sy (Resolved b) r s) = [] \<and>
   error (handleAddCrypto sy (Resolved b) r s) = [] \<and>
   issued (handleSelectSearchResult result (Resolved b) r s) =
     issued s @ [GetAdd (symbol result), GetList] \<and>
   \<not> isSearchDialogOpen (handleSelectSearchResult result (Resolved b) r s) \<and>
   searchTerm (handleSelectSearchResult result (Resolved b) r s) = [] \<and>
   searchResults (handleSelectSearchResult result (Resolved b) r s) = [] \<and>
   error (handleSelectSearchResult result (Resolved b) r s) = []"
  by (simp add: handleAddCrypto_def handleSelectSearchResult_def handleAddCrypto_settle_def
      handleAddCrypto_begin_def fetchCryptocurrencies_issued)

theorem add_success_refetch_and_reset_witness:
  "issued (handleAddCrypto (utf16 ''DOGE'') (Resolved (OtherBody None ''{}''))
      (Resolved (ArrayBody [example_coin 1 ''DOGE'' False, example_coin 2 ''BTC'' True]))
      searching) = [GetAdd (utf16 ''DOGE''), GetList] \<and>
   \<not> isSearchDialogOpen (handleAddCrypto (utf16 ''DOGE'') (Resolved (OtherBody None ''{}''))
      (Resolved (ArrayBody [example_coin 1 ''DOGE'' False, example_coin 2 ''BTC'' True]))
      searching)"
  using add_success_refetch_and_reset [of "utf16 ''DOGE''" "OtherBody None ''{}''"
      "Resolved (ArrayBody [example_coin 1 ''DOGE'' False, example_coin 2 ''BTC'' True])"
      searching]
  by (simp add: searching_def initial_def)

subsection \<open>C9: a burst of keystrokes\<close>

text \<open>
  C9. For a burst of keystrokes, each less than 300 ms after the one before it, the
  debounced function calls \<open>searchCryptocurrencies\<close> once for the whole burst, 300 ms
  after the last keystroke and with the text of the last keystroke; so at most one
  search request is issued, none if that text has fewer than two code units, and
  its query is that text.
\<close>

theorem burst_one_search:
  assumes "keystrokes \<noteq> []" and "burst 300 keystrokes"
  shows "debouncedSearch keystrokes =
      [(fst (last keystrokes) + 300, snd (last keystrokes))]
    \<and> issued (run_searches toLowerCase r (debouncedSearch keystrokes) s) =
      issued s @
        (if length (snd (last keystrokes)) < 2 then []
         else [GetSearch (snd (last keystrokes))])"
proof -
  have d: "debouncedSearch keystrokes =
      [(fst (last keystrokes) + 300, snd (last keystrokes))]"
    using assms by (simp add: debouncedSearch_def debounce_burst [of keystrokes 300])
  have "issued (run_searches toLowerCase r [(t, q)] s) =
      issued s @ (if length q < 2 then [] else [GetSearch q])" for t q
    by (simp add: searchCryptocurrencies_issued)
  with d show ?thesis by simp
qed

theorem burst_one_search_witness:
  "typing_btc \<noteq> [] \<and> burst 300 typing_btc \<and>
   debouncedSearch typing_btc = [(1550, utf16 ''btc'')] \<and>
   issued (run_searches ascii_toLowerCase
      (\<lambda>t. Resolved (ArrayBody [\<lparr>symbol = utf16 ''BTC'', name = utf16 ''Bitcoin''\<rparr>]))
      (debouncedSearch typing_btc) searching) = [GetSearch (utf16 ''btc'')]"
proof -
  have h1: "typing_btc \<noteq> []" by (simp add: typing_btc_def)
  have h2: "burst 300 typing_btc" by (simp add: typing_btc_def)
  have l: "last typing_btc = (1250, utf16 ''btc'')" by (simp add: typing_btc_def)
  have n: "\<not> length (utf16 ''btc'') < 2" by (simp add: utf16_def)
  have i: "issued searching = []" by (simp add: searching_def initial_def)
  note t = burst_one_search [OF h1 h2, of ascii_toLowerCase
      "\<lambda>t. Resolved (ArrayBody [\<lparr>symbol = utf16 ''BTC'', name = utf16 ''Bitcoin''\<rparr>])"
      searching]
  from t [THEN conjunct1] have a: "debouncedSearch typing_btc = [(1550, utf16 ''btc'')]"
    by (simp add: l)
  from t [THEN conjunct2] have b: "issued (run_searches ascii_toLowerCase
      (\<lambda>t. Resolved (ArrayBody [\<lparr>symbol = utf16 ''BTC'', name = utf16 ''Bitcoin''\<rparr>]))
      (debouncedSearch typing_btc) searching) = [GetSearch (utf16 ''btc'')]"
    by (simp add: l n i)
  from h1 h2 a b show ?thesis by (intro conjI)
qed

subsection \<open>C10: a failed list request without an array\<close>

text \<open>
  C10. A list request whose outcome brings no array (a rejection with no response,
  a request that could not be set up, an error response whose body is no array, an
  error that is not of axios) changes the loading flag and the error message
  only: the list of coins, the dialog flag, the search text, the candidates and
  the anchor are what they were before the call.
\<close>

theorem fetch_failure_keeps_list:
  assumes "\<not> carries_array r"
  shows "fetchCryptocurrencies r s =
      s\<lparr>isLoading := False, error := error (fetchCryptocurrencies r s),
        issued := issued s @ [GetList]\<rparr>
    \<and> cryptocurrencies (fetchCryptocurrencies r s) = cryptocurrencies s"
  using assms
  by (auto simp: carries_array_def fetchCryptocurrencies_def fetchCryptocurrencies_settle_def
      fetchCryptocurrencies_begin_def fetch_catch_def Let_def
      split: settled.splits body.splits thrown.splits option.splits)

theorem fetch_failure_keeps_list_witness:
  "\<not> carries_array (Rejected (AxiosErr timeout_error) :: Cryptocurrency settled) \<and>
   cryptocurrencies (fetchCryptocurrencies (Rejected (AxiosErr timeout_error))
     (searching\<lparr>cryptocurrencies := [example_coin 2 ''BTC'' True]\<rparr>)) =
   [example_coin 2 ''BTC'' True]"
proof -
  have h: "\<not> carries_array (Rejected (AxiosErr timeout_error) :: Cryptocurrency settled)"
    by (simp add: carries_array_def timeout_error_def)
  show ?thesis
    using h fetch_failure_keeps_list [OF h,
      of "searching\<lparr>cryptocurrencies := [example_coin 2 ''BTC'' True]\<rparr>"]
    by simp
qed

end
